theory Spec2Isabelle
  imports Main
begin

section \<open>JavaScript values and objects\<close>

text \<open>
  The logger handles values of type \<^verbatim>\<open>unknown\<close>: whatever the caller puts into the
  additional fields. They are modelled as trees of plain data. \<open>JNum\<close> carries the
  safe integers (\<^verbatim>\<open>Number.isSafeInteger\<close>: the integers of magnitude below \<open>2^53\<close>), the
  numbers whose decimal text is the integer written in full; \<open>JFunction\<close> stands for any
  function value. Strings are lists of 8-bit code units. Other numbers, getters, proxies,
  symbol keys, \<^verbatim>\<open>toJSON\<close> methods and cyclic structures are outside this data type.
\<close>

typedef safe_integer = "{n :: int. - 9007199254740992 < n \<and> n < 9007199254740992}"
  by (rule exI [of _ 0]) simp

datatype jsval =
    JUndefined
  | JNull
  | JBool bool
  | JNum safe_integer
  | JBigInt int
  | JStr string
  | JFunction
  | JArr "jsval list"
  | JObj "(string \<times> jsval) list"

text \<open>
  An object is the list of its own enumerable properties, in the order in which the
  engine enumerates them: array-index keys first, ascending, then the other keys in
  creation order. A key occurs once in an object.
\<close>

type_synonym js_object = "(string \<times> jsval) list"

text \<open>What a call can raise: a \<^verbatim>\<open>TypeError\<close> with its message, the error of Deno for a
  denied permission (\<^verbatim>\<open>Deno.errors.NotCapable\<close>) with its message, or any value thrown by
  the caller's own code.\<close>

datatype js_exception = TypeError string | NotCapable string | Thrown jsval

definition is_digit :: "char \<Rightarrow> bool" where
  "is_digit c = (48 \<le> (of_char c :: nat) \<and> (of_char c :: nat) \<le> 57)"

definition digit_value :: "char \<Rightarrow> int" where
  "digit_value c = of_char c - 48"

definition string_to_int :: "string \<Rightarrow> int" where
  "string_to_int s = foldl (\<lambda>a c. 10 * a + digit_value c) 0 s"

text \<open>A key is an array index when it is the canonical decimal form of an integer
  from 0 to \<open>2^32 - 2\<close>.\<close>

definition array_index :: "string \<Rightarrow> int option" where
  "array_index k =
     (if k \<noteq> [] \<and> list_all is_digit k \<and> (k = ''0'' \<or> hd k \<noteq> CHR ''0'')
         \<and> string_to_int k < 4294967295
      then Some (string_to_int k) else None)"

definition key_before :: "string \<Rightarrow> string \<Rightarrow> bool" where
  "key_before k k' =
     (case array_index k of
        None \<Rightarrow> False
      | Some i \<Rightarrow> (case array_index k' of None \<Rightarrow> True | Some j \<Rightarrow> i < j))"

fun insert_key :: "string \<Rightarrow> jsval \<Rightarrow> js_object \<Rightarrow> js_object" where
  "insert_key k v [] = [(k, v)]"
| "insert_key k v ((k', v') # ps) =
     (if key_before k k' then (k, v) # (k', v') # ps
      else (k', v') # insert_key k v ps)"

fun replace_value :: "string \<Rightarrow> jsval \<Rightarrow> js_object \<Rightarrow> js_object" where
  "replace_value k v [] = []"
| "replace_value k v ((k', v') # ps) =
     (if k' = k then (k, v) # ps else (k', v') # replace_value k v ps)"

text \<open>Defining a property: an existing key keeps its place and takes the new value, a
  new key is added at its place in the enumeration order.\<close>

definition CreateDataProperty :: "js_object \<Rightarrow> string \<Rightarrow> jsval \<Rightarrow> js_object" where
  "CreateDataProperty obj k v =
     (case map_of obj k of
        Some _ \<Rightarrow> replace_value k v obj
      | None \<Rightarrow> insert_key k v obj)"

text \<open>The spread \<^verbatim>\<open>...source\<close> inside an object literal: every own enumerable property
  of the source is defined on the target, in the source's order.\<close>

definition CopyDataProperties :: "js_object \<Rightarrow> js_object \<Rightarrow> js_object" where
  "CopyDataProperties target source = fold (\<lambda>(k, v) obj. CreateDataProperty obj k v) source target"

text \<open>An object literal \<^verbatim>\<open>{k1: v1, ..., kn: vn}\<close> defines its properties from left to
  right on a fresh object.\<close>

definition object_literal :: "(string \<times> jsval) list \<Rightarrow> js_object" where
  "object_literal props = CopyDataProperties [] props"

definition get :: "js_object \<Rightarrow> string \<Rightarrow> jsval option" where
  "get obj k = map_of obj k"

section \<open>JSON.stringify and console.log\<close>

text \<open>The digit of a number below ten, and the lower-case hexadecimal digit of a number
  below sixteen; they are applied to such numbers only.\<close>

definition digit_char :: "nat \<Rightarrow> char" where
  "digit_char n = ''0123456789'' ! n"

function decimal :: "nat \<Rightarrow> string" where
  "decimal n = (if n < 10 then [digit_char n] else decimal (n div 10) @ [digit_char (n mod 10)])"
  by pat_completeness auto
termination
  by (relation "measure (\<lambda>n. n)") auto

declare decimal.simps [simp del]

definition number_to_string :: "safe_integer \<Rightarrow> string" where
  "number_to_string n =
     (let i = Rep_safe_integer n
      in if i < 0 then CHR ''-'' # decimal (nat (- i)) else decimal (nat i))"

definition hex_digit :: "nat \<Rightarrow> char" where
  "hex_digit n = ''0123456789abcdef'' ! n"

definition quote_char :: "char \<Rightarrow> string" where
  "quote_char c =
     (let n = (of_char c :: nat) in
      if n = 8 then [CHR 0x5C, CHR ''b'']
      else if n = 9 then [CHR 0x5C, CHR ''t'']
      else if n = 10 then [CHR 0x5C, CHR ''n'']
      else if n = 12 then [CHR 0x5C, CHR ''f'']
      else if n = 13 then [CHR 0x5C, CHR ''r'']
      else if n = 34 then [CHR 0x5C, CHR 0x22]
      else if n = 92 then [CHR 0x5C, CHR 0x5C]
      else if n < 32 then
        [CHR 0x5C, CHR ''u'', CHR ''0'', CHR ''0'', hex_digit (n div 16), hex_digit (n mod 16)]
      else [c])"

definition QuoteJSONString :: "string \<Rightarrow> string" where
  "QuoteJSONString s = CHR 0x22 # concat (map quote_char s) @ [CHR 0x22]"

fun join_commas :: "string list \<Rightarrow> string" where
  "join_commas [] = []"
| "join_commas [s] = s"
| "join_commas (s # t # ss) = s @ CHR '','' # join_commas (t # ss)"

text \<open>
  The serialisation of a value: \<open>Inl\<close> when it raises (a BigInt), \<open>Inr None\<close> when the
  value has no JSON form (\<^verbatim>\<open>undefined\<close>, a function), \<open>Inr (Some text)\<close> otherwise. An
  array element with no JSON form is written \<^verbatim>\<open>null\<close>; an object property with no JSON
  form is left out.
\<close>

fun SerializeJSONProperty :: "jsval \<Rightarrow> js_exception + string option"
  and SerializeJSONArray :: "jsval list \<Rightarrow> js_exception + string list"
  and SerializeJSONObject :: "(string \<times> jsval) list \<Rightarrow> js_exception + string list"
where
  "SerializeJSONProperty JUndefined = Inr None"
| "SerializeJSONProperty JFunction = Inr None"
| "SerializeJSONProperty JNull = Inr (Some ''null'')"
| "SerializeJSONProperty (JBool b) = Inr (Some (if b then ''true'' else ''false''))"
| "SerializeJSONProperty (JNum n) = Inr (Some (number_to_string n))"
| "SerializeJSONProperty (JBigInt n) = Inl (TypeError ''Do not know how to serialize a BigInt'')"
| "SerializeJSONProperty (JStr s) = Inr (Some (QuoteJSONString s))"
| "SerializeJSONProperty (JArr xs) =
     (case SerializeJSONArray xs of
        Inl e \<Rightarrow> Inl e
      | Inr ss \<Rightarrow> Inr (Some (CHR ''['' # join_commas ss @ '']'')))"
| "SerializeJSONProperty (JObj ps) =
     (case SerializeJSONObject ps of
        Inl e \<Rightarrow> Inl e
      | Inr ss \<Rightarrow> Inr (Some (CHR ''{'' # join_commas ss @ ''}'')))"
| "SerializeJSONArray [] = Inr []"
| "SerializeJSONArray (x # xs) =
     (case SerializeJSONProperty x of
        Inl e \<Rightarrow> Inl e
      | Inr r \<Rightarrow>
         (case SerializeJSONArray xs of
            Inl e \<Rightarrow> Inl e
          | Inr ss \<Rightarrow> Inr ((case r of None \<Rightarrow> ''null'' | Some t \<Rightarrow> t) # ss)))"
| "SerializeJSONObject [] = Inr []"
| "SerializeJSONObject ((k, v) # ps) =
     (case SerializeJSONProperty v of
        Inl e \<Rightarrow> Inl e
      | Inr r \<Rightarrow>
         (case SerializeJSONObject ps of
            Inl e \<Rightarrow> Inl e
          | Inr ss \<Rightarrow>
             Inr (case r of None \<Rightarrow> ss | Some t \<Rightarrow> (QuoteJSONString k @ CHR '':'' # t) # ss)))"

definition JSON_stringify :: "jsval \<Rightarrow> js_exception + string option" where
  "JSON_stringify v = SerializeJSONProperty v"


text \<open>The process as far as the default sink touches it: the text written to standard
  output so far. A caller's own sink may keep its state in the extension of the record.\<close>

record console =
  stdout :: string

definition console_log :: "string \<Rightarrow> 'a console_scheme \<Rightarrow> 'a console_scheme" where
  "console_log s w = w\<lparr>stdout := stdout w @ s @ [CHR 0x0A]\<rparr>"

text \<open>The operator \<^verbatim>\<open>??\<close> on a value that may be \<^verbatim>\<open>undefined\<close>, and the same choice
  made by a default parameter value.\<close>

definition coalesce :: "'a option \<Rightarrow> 'a \<Rightarrow> 'a" where
  "coalesce x d = (case x of None \<Rightarrow> d | Some v \<Rightarrow> v)"

section \<open>types.ts\<close>

datatype LogLevel = Debug | Info | Warn | Error | Critical

text \<open>At run time a level is its name.\<close>

fun level_name :: "LogLevel \<Rightarrow> string" where
  "level_name Debug = ''debug''"
| "level_name Info = ''info''"
| "level_name Warn = ''warn''"
| "level_name Error = ''error''"
| "level_name Critical = ''critical''"

type_synonym LogEntry = js_object

text \<open>A sink receives the entry and acts on the world outside the logger: it returns
  normally or raises, and leaves the world as it made it. The fields of the logger are
  private, so the logger is no part of that world.\<close>

type_synonym 'w sink = "LogEntry \<Rightarrow> 'w \<Rightarrow> (js_exception + unit) \<times> 'w"

text \<open>The options as they arrive at run time: \<open>None\<close> is an omitted (or \<^verbatim>\<open>undefined\<close>)
  option. The static type allows the five level names for \<open>minLevel\<close>; a caller that
  bypasses the type checker can pass any string.\<close>

record 'w LoggerOptions =
  minLevel :: "string option"
  serviceName :: "string option"
  env :: "string option"
  "output" :: "'w sink option"

section \<open>logger.ts\<close>

definition LEVEL_PRIORITY :: "string \<Rightarrow> nat option" where
  "LEVEL_PRIORITY =
     map_of [(''debug'', 0), (''info'', 1), (''warn'', 2), (''error'', 3), (''critical'', 4)]"

text \<open>The priority of a level of the static type.\<close>

definition priority :: "LogLevel \<Rightarrow> nat" where
  "priority l = (case LEVEL_PRIORITY (level_name l) of Some p \<Rightarrow> p | None \<Rightarrow> 0)"

text \<open>
  \<open>LEVEL_PRIORITY\<close> above is the table's own properties. The table is a plain object, so
  the member access \<^verbatim>\<open>LEVEL_PRIORITY[name]\<close> on a name that is no own property goes on to
  \<^verbatim>\<open>Object.prototype\<close>: it gives the member of that name there (a function, or for
  \<^verbatim>\<open>__proto__\<close> the prototype object itself) and \<^verbatim>\<open>undefined\<close> only when there is none.
\<close>

datatype table_value = Priority nat | Inherited | Undefined

definition Object_prototype_keys :: "string list" where
  "Object_prototype_keys =
     [''constructor'', ''hasOwnProperty'', ''isPrototypeOf'', ''propertyIsEnumerable'',
      ''toLocaleString'', ''toString'', ''valueOf'', ''__proto__'',
      ''__defineGetter__'', ''__defineSetter__'', ''__lookupGetter__'', ''__lookupSetter__'']"

definition LEVEL_PRIORITY_lookup :: "string \<Rightarrow> table_value" where
  "LEVEL_PRIORITY_lookup name =
     (case LEVEL_PRIORITY name of
        Some p \<Rightarrow> Priority p
      | None \<Rightarrow> if name \<in> set Object_prototype_keys then Inherited else Undefined)"

text \<open>The comparison \<^verbatim>\<open><\<close> on the results of such an access: two numbers compare as
  numbers; \<^verbatim>\<open>undefined\<close>, a function and the prototype object convert to NaN, and a
  comparison with NaN is false.\<close>

fun js_less :: "table_value \<Rightarrow> table_value \<Rightarrow> bool" where
  "js_less (Priority a) (Priority b) = (a < b)"
| "js_less _ _ = False"

record 'w Logger =
  minPriority :: table_value
  service :: "string option"
  env :: string
  "output" :: "'w sink"

text \<open>The default sink, \<^verbatim>\<open>(entry) => console.log(JSON.stringify(entry))\<close>.\<close>

definition default_output :: "'a console_scheme sink" where
  "default_output entry w =
     (case JSON_stringify (JObj entry) of
        Inl e \<Rightarrow> (Inl e, w)
      | Inr None \<Rightarrow> (Inr (), console_log ''undefined'' w)
      | Inr (Some text) \<Rightarrow> (Inr (), console_log text w))"

text \<open>
  The constructor. \<open>Deno_env_get\<close> is \<^verbatim>\<open>Deno.env.get\<close> of the process: it returns the
  variable's value, or \<^verbatim>\<open>undefined\<close> (\<open>None\<close>) when the variable is unset, or raises (when
  the process may not read its environment). It is called only when the \<open>env\<close> option is
  omitted. The options argument itself may be omitted.
\<close>

definition Logger_new ::
  "'a console_scheme LoggerOptions option \<Rightarrow> (string \<Rightarrow> js_exception + string option)
     \<Rightarrow> js_exception + 'a console_scheme Logger" where
  "Logger_new options_arg Deno_env_get =
     (let options = coalesce options_arg
                      \<lparr>minLevel = None, serviceName = None, env = None, output = None\<rparr>;
          minPriority' = LEVEL_PRIORITY_lookup (coalesce (minLevel options) ''info'');
          service' = serviceName options
      in case (case LoggerOptions.env options of
                 Some e \<Rightarrow> Inr e
               | None \<Rightarrow>
                  (case Deno_env_get ''DENO_ENV'' of
                     Inl x \<Rightarrow> Inl x
                   | Inr v \<Rightarrow> Inr (coalesce v ''dev''))) of
           Inl x \<Rightarrow> Inl x
         | Inr env' \<Rightarrow>
            Inr \<lparr>minPriority = minPriority',
                 service = service',
                 env = env',
                 output = coalesce (LoggerOptions.output options) default_output\<rparr>)"

text \<open>The state a call runs in: the world the sink acts on, and the record of the
  entries handed to the sink so far (one per invocation, in order).\<close>

record 'w state =
  world :: 'w
  sink_calls :: "LogEntry list"

text \<open>
  The private method \<^verbatim>\<open>log\<close>. \<open>now\<close> is what \<^verbatim>\<open>new Date().toISOString()\<close> returns at
  the call. The method returns its completion (normal, or the exception that leaves it),
  the logger object after the call, and the state after the call.
\<close>

definition log ::
  "'w Logger \<Rightarrow> LogLevel \<Rightarrow> string \<Rightarrow> js_object option \<Rightarrow> string \<Rightarrow> 'w state
     \<Rightarrow> (js_exception + unit) \<times> 'w Logger \<times> 'w state" where
  "log this level message data_arg now s =
     (let data = coalesce data_arg [] in
      if js_less (LEVEL_PRIORITY_lookup (level_name level)) (minPriority this) then (Inr (), this, s)
      else
        let entry = CopyDataProperties
                      (object_literal
                         [(''timestamp'', JStr now),
                          (''level'', JStr (level_name level)),
                          (''message'', JStr message),
                          (''env'', JStr (env this)),
                          (''service'', (case service this of None \<Rightarrow> JUndefined | Some n \<Rightarrow> JStr n))])
                      data;
            (r, w') = output this entry (world s)
        in (r, this, \<lparr>world = w', sink_calls = sink_calls s @ [entry]\<rparr>))"

definition debug ::
  "'w Logger \<Rightarrow> string \<Rightarrow> js_object option \<Rightarrow> string \<Rightarrow> 'w state
     \<Rightarrow> (js_exception + unit) \<times> 'w Logger \<times> 'w state" where
  "debug this message data now s = log this Debug message data now s"

definition info ::
  "'w Logger \<Rightarrow> string \<Rightarrow> js_object option \<Rightarrow> string \<Rightarrow> 'w state
     \<Rightarrow> (js_exception + unit) \<times> 'w Logger \<times> 'w state" where
  "info this message data now s = log this Info message data now s"

definition warn ::
  "'w Logger \<Rightarrow> string \<Rightarrow> js_object option \<Rightarrow> string \<Rightarrow> 'w state
     \<Rightarrow> (js_exception + unit) \<times> 'w Logger \<times> 'w state" where
  "warn this message data now s = log this Warn message data now s"

definition error ::
  "'w Logger \<Rightarrow> string \<Rightarrow> js_object option \<Rightarrow> string \<Rightarrow> 'w state
     \<Rightarrow> (js_exception + unit) \<times> 'w Logger \<times> 'w state" where
  "error this message data now s = log this Error message data now s"

definition critical ::
  "'w Logger \<Rightarrow> string \<Rightarrow> js_object option \<Rightarrow> string \<Rightarrow> 'w state
     \<Rightarrow> (js_exception + unit) \<times> 'w Logger \<times> 'w state" where
  "critical this message data now s = log this Critical message data now s"

text \<open>The emission method of a severity.\<close>

fun emit ::
  "LogLevel \<Rightarrow> 'w Logger \<Rightarrow> string \<Rightarrow> js_object option \<Rightarrow> string \<Rightarrow> 'w state
     \<Rightarrow> (js_exception + unit) \<times> 'w Logger \<times> 'w state" where
  "emit Debug = debug"
| "emit Info = info"
| "emit Warn = warn"
| "emit Error = error"
| "emit Critical = critical"

text \<open>The entry that a call builds once it has passed the filter.\<close>

abbreviation entry_of :: "'w Logger \<Rightarrow> LogLevel \<Rightarrow> string \<Rightarrow> js_object option \<Rightarrow> string \<Rightarrow> LogEntry" where
  "entry_of this level message data now \<equiv>
     CopyDataProperties
       (object_literal
          [(''timestamp'', JStr now),
           (''level'', JStr (level_name level)),
           (''message'', JStr message),
           (''env'', JStr (env this)),
           (''service'', (case service this of None \<Rightarrow> JUndefined | Some n \<Rightarrow> JStr n))])
       (coalesce data [])"



section \<open>Properties of objects and of the constructor\<close>

lemma map_of_insert_key:
  "map_of ps k = None \<Longrightarrow>
     map_of (insert_key k v ps) k' = (if k' = k then Some v else map_of ps k')"
  by (induction ps) (auto split: if_splits)

lemma map_of_replace_value:
  "map_of ps k = Some u \<Longrightarrow>
     map_of (replace_value k v ps) k' = (if k' = k then Some v else map_of ps k')"
  by (induction ps) (auto split: if_splits)

lemma get_CreateDataProperty:
  "get (CreateDataProperty obj k v) k' = (if k' = k then Some v else get obj k')"
  by (cases "map_of obj k")
     (simp_all add: get_def CreateDataProperty_def map_of_insert_key map_of_replace_value)

lemma get_CopyDataProperties_other:
  "k \<notin> fst ` set source \<Longrightarrow> get (CopyDataProperties target source) k = get target k"
  unfolding CopyDataProperties_def
  by (induction source arbitrary: target) (auto simp: get_CreateDataProperty)

lemma get_CopyDataProperties_source:
  "distinct (map fst source) \<Longrightarrow> (k, v) \<in> set source \<Longrightarrow>
     get (CopyDataProperties target source) k = Some v"
proof (induction source arbitrary: target)
  case Nil
  then show ?case by simp
next
  case (Cons p ps)
  obtain a b where p: "p = (a, b)" by (cases p)
  have step: "CopyDataProperties target (p # ps) = CopyDataProperties (CreateDataProperty target a b) ps"
    by (simp add: CopyDataProperties_def p)
  show ?case
  proof (cases "(k, v) \<in> set ps")
    case True
    with Cons show ?thesis by (simp add: step)
  next
    case False
    with Cons.prems p have kv: "k = a" "v = b" by auto
    from Cons.prems p have "a \<notin> fst ` set ps" by simp
    then show ?thesis
      by (simp add: step kv get_CopyDataProperties_other get_CreateDataProperty)
  qed
qed

lemma fst_set_insert_key: "fst ` set (insert_key k v ps) = insert k (fst ` set ps)"
  by (induction k v ps rule: insert_key.induct) (simp_all add: insert_commute)

lemma fst_set_replace_value: "map fst (replace_value k v ps) = map fst ps"
  by (induction k v ps rule: replace_value.induct) simp_all

lemma distinct_insert_key:
  "distinct (map fst ps) \<Longrightarrow> k \<notin> fst ` set ps \<Longrightarrow> distinct (map fst (insert_key k v ps))"
proof (induction k v ps rule: insert_key.induct)
  case (1 k v)
  then show ?case by simp
next
  case (2 k v k' v' ps)
  have "k' \<notin> fst ` set (insert_key k v ps)"
    using "2.prems" by (auto simp: fst_set_insert_key)
  with 2 show ?case by simp
qed

lemma distinct_replace_value:
  "distinct (map fst ps) \<Longrightarrow> distinct (map fst (replace_value k v ps))"
  by (simp add: fst_set_replace_value)

lemma distinct_CreateDataProperty:
  "distinct (map fst obj) \<Longrightarrow> distinct (map fst (CreateDataProperty obj k v))"
proof (cases "map_of obj k")
  case None
  then have "k \<notin> fst ` set obj" by (simp add: map_of_eq_None_iff)
  with None show "distinct (map fst obj) \<Longrightarrow> ?thesis"
    by (simp add: CreateDataProperty_def distinct_insert_key)
next
  case (Some u)
  then show "distinct (map fst obj) \<Longrightarrow> ?thesis"
    by (simp add: CreateDataProperty_def distinct_replace_value)
qed

lemma distinct_CopyDataProperties:
  "distinct (map fst target) \<Longrightarrow> distinct (map fst (CopyDataProperties target source))"
  unfolding CopyDataProperties_def
  by (induction source arbitrary: target) (auto simp: distinct_CreateDataProperty)

lemma js_less_priority:
  "js_less (LEVEL_PRIORITY_lookup (level_name S)) (LEVEL_PRIORITY_lookup (level_name T)) = (priority S < priority T)"
  by (cases S; cases T) (simp_all add: LEVEL_PRIORITY_def LEVEL_PRIORITY_lookup_def priority_def)

lemma emit_log: "emit S this message data now s = log this S message data now s"
  by (cases S) (simp_all add: debug_def info_def warn_def error_def critical_def)


lemma Logger_new_Some:
  "Logger_new (Some opts) denv = Inr lg \<Longrightarrow>
     minPriority lg = LEVEL_PRIORITY_lookup (coalesce (minLevel opts) ''info'')
     \<and> service lg = serviceName opts
     \<and> output lg = coalesce (LoggerOptions.output opts) default_output"
  by (auto simp: Logger_new_def Let_def coalesce_def split: option.splits sum.splits)

section \<open>The priority table\<close>

text \<open>
  C6. The table that the filter reads maps \<^verbatim>\<open>debug\<close> to 0, \<^verbatim>\<open>info\<close> to 1, \<^verbatim>\<open>warn\<close> to 2,
  \<^verbatim>\<open>error\<close> to 3 and \<^verbatim>\<open>critical\<close> to 4, and has no other key; the member access on
  each of the five names gives that number; the priorities of the five levels increase
  strictly in that order.
\<close>

theorem LEVEL_PRIORITY_table:
  "LEVEL_PRIORITY ''debug'' = Some 0 \<and> LEVEL_PRIORITY ''info'' = Some 1
   \<and> LEVEL_PRIORITY ''warn'' = Some 2 \<and> LEVEL_PRIORITY ''error'' = Some 3
   \<and> LEVEL_PRIORITY ''critical'' = Some 4
   \<and> dom LEVEL_PRIORITY = {''debug'', ''info'', ''warn'', ''error'', ''critical''}
   \<and> LEVEL_PRIORITY_lookup ''debug'' = Priority 0 \<and> LEVEL_PRIORITY_lookup ''info'' = Priority 1
   \<and> LEVEL_PRIORITY_lookup ''warn'' = Priority 2 \<and> LEVEL_PRIORITY_lookup ''error'' = Priority 3
   \<and> LEVEL_PRIORITY_lookup ''critical'' = Priority 4
   \<and> priority Debug = 0 \<and> priority Info = 1 \<and> priority Warn = 2
   \<and> priority Error = 3 \<and> priority Critical = 4
   \<and> priority Debug < priority Info \<and> priority Info < priority Warn
   \<and> priority Warn < priority Error \<and> priority Error < priority Critical"
  by (auto simp: LEVEL_PRIORITY_def LEVEL_PRIORITY_lookup_def priority_def dom_def)

section \<open>The filter\<close>

lemma log_filtered:
  "js_less (LEVEL_PRIORITY_lookup (level_name level)) (minPriority this) \<Longrightarrow>
     log this level message data now s = (Inr (), this, s)"
  by (simp add: log_def)

text \<open>
  C1. A call of the severity-\<open>S\<close> method on a logger constructed with minimum severity
  \<open>T\<close>, where the priority of \<open>S\<close> is below the priority of \<open>T\<close>, returns normally and
  changes nothing: the world and the record of sink invocations are as before (the sink
  was not invoked), the logger is as before, and the result does not depend on the clock
  (no entry was built).
\<close>

theorem below_threshold_no_effect:
  assumes "Logger_new (Some opts) denv = Inr lg"
    and "coalesce (minLevel opts) ''info'' = level_name T"
    and "priority S < priority T"
  shows "emit S lg message data now s = (Inr (), lg, s)"
proof -
  from assms(1,2) have "minPriority lg = LEVEL_PRIORITY_lookup (level_name T)"
    by (simp add: Logger_new_Some)
  with assms(3) have "js_less (LEVEL_PRIORITY_lookup (level_name S)) (minPriority lg)"
    by (simp add: js_less_priority)
  then show ?thesis
    by (simp add: emit_log log_filtered)
qed

lemma warn_logger:
  "Logger_new (Some \<lparr>minLevel = Some ''warn'', serviceName = None, env = Some ''prod'',
       output = Some (\<lambda>entry w. (Inr (), w\<lparr>stdout := ''called''\<rparr>))\<rparr>) (\<lambda>n. Inr None)
   = Inr \<lparr>minPriority = Priority 2, service = None, env = ''prod'',
          output = (\<lambda>entry w. (Inr (), w\<lparr>stdout := ''called''\<rparr>))\<rparr>"
  by (simp add: Logger_new_def LEVEL_PRIORITY_def LEVEL_PRIORITY_lookup_def coalesce_def)

theorem below_threshold_no_effect_witness:
  "priority Debug < priority Warn \<and>
   emit Debug \<lparr>minPriority = Priority 2, service = None, env = ''prod'',
          output = (\<lambda>entry w. (Inr (), w\<lparr>stdout := ''called''\<rparr>))\<rparr>
     ''Should not log'' None ''2025-08-14T15:04:51.512Z'' \<lparr>world = \<lparr>stdout = ''''\<rparr>, sink_calls = []\<rparr>
   = (Inr (), \<lparr>minPriority = Priority 2, service = None, env = ''prod'',
          output = (\<lambda>entry w. (Inr (), w\<lparr>stdout := ''called''\<rparr>))\<rparr>,
      \<lparr>world = \<lparr>stdout = ''''\<rparr>, sink_calls = []\<rparr>)"
proof -
  have p: "priority Debug < priority Warn"
    by (simp add: priority_def LEVEL_PRIORITY_def LEVEL_PRIORITY_lookup_def)
  show ?thesis
    using p below_threshold_no_effect [OF warn_logger _ p] by (simp add: coalesce_def)
qed

section \<open>Accepted calls\<close>

lemma log_accepted:
  assumes "\<not> js_less (LEVEL_PRIORITY_lookup (level_name level)) (minPriority this)"
    and "output this (entry_of this level message data now) (world s) = (r, w')"
  shows "log this level message data now s =
           (r, this, \<lparr>world = w', sink_calls = sink_calls s @ [entry_of this level message data now]\<rparr>)"
  using assms by (simp add: log_def)

lemma not_array_index_names:
  "array_index ''timestamp'' = None" "array_index ''level'' = None"
  "array_index ''message'' = None" "array_index ''env'' = None" "array_index ''service'' = None"
  by (simp_all add: array_index_def is_digit_def)

lemma fixed_fields_literal:
  "object_literal [(''timestamp'', a), (''level'', b), (''message'', c), (''env'', d), (''service'', e)]
     = [(''timestamp'', a), (''level'', b), (''message'', c), (''env'', d), (''service'', e)]"
  by (simp add: object_literal_def CopyDataProperties_def CreateDataProperty_def key_before_def
      not_array_index_names)

lemma accepted_by_constructed:
  assumes "Logger_new (Some opts) denv = Inr lg"
    and "coalesce (minLevel opts) ''info'' = level_name T"
    and "priority T \<le> priority S"
  shows "\<not> js_less (LEVEL_PRIORITY_lookup (level_name S)) (minPriority lg)"
proof -
  from assms(1,2) have "minPriority lg = LEVEL_PRIORITY_lookup (level_name T)"
    by (simp add: Logger_new_Some)
  with assms(3) show ?thesis
    by (simp add: js_less_priority)
qed

lemma emit_accepted:
  assumes "Logger_new (Some opts) denv = Inr lg"
    and "coalesce (minLevel opts) ''info'' = level_name T"
    and "priority T \<le> priority S"
    and "output lg (entry_of lg S message data now) (world s) = (r, w')"
  shows "emit S lg message data now s
           = (r, lg, \<lparr>world = w', sink_calls = sink_calls s @ [entry_of lg S message data now]\<rparr>)"
  using accepted_by_constructed [OF assms(1-3)] assms(4)
  by (simp add: emit_log log_accepted)

text \<open>
  C2, as amended. A call of the severity-\<open>S\<close> method on a logger constructed with minimum
  severity \<open>T\<close>, where the priority of \<open>S\<close> is at least the priority of \<open>T\<close>, invokes
  the sink exactly once, whatever the additional fields: the record of sink invocations
  grows by one entry, and the completion and the world after the call are those of the
  sink on that entry. When the additional fields have no \<^verbatim>\<open>level\<close> key, the \<^verbatim>\<open>level\<close> of
  that entry is the name of \<open>S\<close>; when they have one, it is the caller's value.
\<close>

theorem accepted_call_invokes_sink_once:
  assumes "Logger_new (Some opts) denv = Inr lg"
    and "coalesce (minLevel opts) ''info'' = level_name T"
    and "priority T \<le> priority S"
  shows "\<exists>e r w'. emit S lg message data now s
                     = (r, lg, \<lparr>world = w', sink_calls = sink_calls s @ [e]\<rparr>)
           \<and> output lg e (world s) = (r, w')
           \<and> (''level'' \<notin> fst ` set (coalesce data []) \<longrightarrow>
                  get e ''level'' = Some (JStr (level_name S)))
           \<and> (distinct (map fst (coalesce data [])) \<longrightarrow>
                  (\<forall>v. (''level'', v) \<in> set (coalesce data []) \<longrightarrow> get e ''level'' = Some v))"
proof -
  let ?e = "entry_of lg S message data now"
  obtain r w' where out: "output lg ?e (world s) = (r, w')"
    by (cases "output lg ?e (world s)")
  have "''level'' \<notin> fst ` set (coalesce data []) \<longrightarrow>
          get ?e ''level'' = Some (JStr (level_name S))"
  proof
    assume absent: "''level'' \<notin> fst ` set (coalesce data [])"
    show "get ?e ''level'' = Some (JStr (level_name S))"
      by (simp only: get_CopyDataProperties_other [OF absent] fixed_fields_literal)
         (simp add: get_def)
  qed
  moreover have "distinct (map fst (coalesce data [])) \<longrightarrow>
          (\<forall>v. (''level'', v) \<in> set (coalesce data []) \<longrightarrow> get ?e ''level'' = Some v)"
    by (simp add: get_CopyDataProperties_source)
  ultimately show ?thesis
    using emit_accepted [OF assms(1-3) out] out by blast
qed

lemmas object_eval = object_literal_def CopyDataProperties_def CreateDataProperty_def
  key_before_def array_index_def is_digit_def string_to_int_def digit_value_def coalesce_def

theorem accepted_call_invokes_sink_once_witness:
  "priority Warn \<le> priority Error \<and>
   emit Error \<lparr>minPriority = Priority 2, service = None, env = ''prod'',
          output = (\<lambda>entry w. (Inr (), w\<lparr>stdout := ''called''\<rparr>))\<rparr>
     ''x'' None ''2025-08-14T15:04:51.512Z'' \<lparr>world = \<lparr>stdout = ''''\<rparr>, sink_calls = []\<rparr>
   = (Inr (), \<lparr>minPriority = Priority 2, service = None, env = ''prod'',
          output = (\<lambda>entry w. (Inr (), w\<lparr>stdout := ''called''\<rparr>))\<rparr>,
      \<lparr>world = \<lparr>stdout = ''called''\<rparr>,
       sink_calls = [[(''timestamp'', JStr ''2025-08-14T15:04:51.512Z''), (''level'', JStr ''error''),
                      (''message'', JStr ''x''), (''env'', JStr ''prod''), (''service'', JUndefined)]]\<rparr>) \<and>
   emit Error \<lparr>minPriority = Priority 2, service = None, env = ''prod'',
          output = (\<lambda>entry w. (Inr (), w\<lparr>stdout := ''called''\<rparr>))\<rparr>
     ''x'' (Some [(''level'', JStr ''bogus'')]) ''2025-08-14T15:04:51.512Z''
     \<lparr>world = \<lparr>stdout = ''''\<rparr>, sink_calls = []\<rparr>
   = (Inr (), \<lparr>minPriority = Priority 2, service = None, env = ''prod'',
          output = (\<lambda>entry w. (Inr (), w\<lparr>stdout := ''called''\<rparr>))\<rparr>,
      \<lparr>world = \<lparr>stdout = ''called''\<rparr>,
       sink_calls = [[(''timestamp'', JStr ''2025-08-14T15:04:51.512Z''), (''level'', JStr ''bogus''),
                      (''message'', JStr ''x''), (''env'', JStr ''prod''), (''service'', JUndefined)]]\<rparr>)"
proof -
  have p: "priority Warn \<le> priority Error"
    by (simp add: priority_def LEVEL_PRIORITY_def)
  have absent: "emit Error \<lparr>minPriority = Priority 2, service = None, env = ''prod'',
          output = (\<lambda>entry w. (Inr (), w\<lparr>stdout := ''called''\<rparr>))\<rparr>
     ''x'' None ''2025-08-14T15:04:51.512Z'' \<lparr>world = \<lparr>stdout = ''''\<rparr>, sink_calls = []\<rparr>
   = (Inr (), \<lparr>minPriority = Priority 2, service = None, env = ''prod'',
          output = (\<lambda>entry w. (Inr (), w\<lparr>stdout := ''called''\<rparr>))\<rparr>,
      \<lparr>world = \<lparr>stdout = ''called''\<rparr>,
       sink_calls = [[(''timestamp'', JStr ''2025-08-14T15:04:51.512Z''), (''level'', JStr ''error''),
                      (''message'', JStr ''x''), (''env'', JStr ''prod''), (''service'', JUndefined)]]\<rparr>)"
    using accepted_call_invokes_sink_once [OF warn_logger _ p, of "''x''" None
        "''2025-08-14T15:04:51.512Z''" "\<lparr>world = \<lparr>stdout = ''''\<rparr>, sink_calls = []\<rparr>"]
    by (simp add: error_def log_def object_eval LEVEL_PRIORITY_def LEVEL_PRIORITY_lookup_def)
  have present: "emit Error \<lparr>minPriority = Priority 2, service = None, env = ''prod'',
          output = (\<lambda>entry w. (Inr (), w\<lparr>stdout := ''called''\<rparr>))\<rparr>
     ''x'' (Some [(''level'', JStr ''bogus'')]) ''2025-08-14T15:04:51.512Z''
     \<lparr>world = \<lparr>stdout = ''''\<rparr>, sink_calls = []\<rparr>
   = (Inr (), \<lparr>minPriority = Priority 2, service = None, env = ''prod'',
          output = (\<lambda>entry w. (Inr (), w\<lparr>stdout := ''called''\<rparr>))\<rparr>,
      \<lparr>world = \<lparr>stdout = ''called''\<rparr>,
       sink_calls = [[(''timestamp'', JStr ''2025-08-14T15:04:51.512Z''), (''level'', JStr ''bogus''),
                      (''message'', JStr ''x''), (''env'', JStr ''prod''), (''service'', JUndefined)]]\<rparr>)"
    using accepted_call_invokes_sink_once [OF warn_logger _ p, of "''x''"
        "Some [(''level'', JStr ''bogus'')]"
        "''2025-08-14T15:04:51.512Z''" "\<lparr>world = \<lparr>stdout = ''''\<rparr>, sink_calls = []\<rparr>"]
    by (simp add: error_def log_def object_eval LEVEL_PRIORITY_def LEVEL_PRIORITY_lookup_def)
  from p absent present show ?thesis
    by simp
qed

lemma info_logger:
  "Logger_new (Some \<lparr>minLevel = Some ''info'', serviceName = None, env = None,
       output = Some (\<lambda>entry w. (Inr (), w))\<rparr>) (\<lambda>n. Inr None)
   = Inr \<lparr>minPriority = Priority 1, service = None, env = ''dev'',
          output = (\<lambda>entry w. (Inr (), w))\<rparr>"
  by (simp add: Logger_new_def LEVEL_PRIORITY_def LEVEL_PRIORITY_lookup_def coalesce_def)

text \<open>
  The claim as stated, for every additional-field mapping, fails where the mapping has a
  \<^verbatim>\<open>level\<close> key: the entry at the sink then carries the caller's value.
\<close>

theorem level_is_severity_counterexample:
  "priority Info \<le> priority Info \<and>
   Logger_new (Some \<lparr>minLevel = Some (level_name Info), serviceName = None, env = None,
       output = Some (\<lambda>entry w. (Inr (), w))\<rparr>) (\<lambda>n. Inr None)
   = Inr \<lparr>minPriority = Priority 1, service = None, env = ''dev'',
          output = (\<lambda>entry w. (Inr (), w))\<rparr> \<and>
   emit Info \<lparr>minPriority = Priority 1, service = None, env = ''dev'',
          output = (\<lambda>entry w. (Inr (), w))\<rparr>
     ''x'' (Some [(''level'', JStr ''bogus'')]) ''2025-08-14T15:04:51.512Z''
     \<lparr>world = \<lparr>stdout = ''''\<rparr>, sink_calls = []\<rparr>
   = (Inr (), \<lparr>minPriority = Priority 1, service = None, env = ''dev'',
          output = (\<lambda>entry w. (Inr (), w))\<rparr>,
      \<lparr>world = \<lparr>stdout = ''''\<rparr>,
       sink_calls = [[(''timestamp'', JStr ''2025-08-14T15:04:51.512Z''), (''level'', JStr ''bogus''),
                      (''message'', JStr ''x''), (''env'', JStr ''dev''), (''service'', JUndefined)]]\<rparr>) \<and>
   get [(''timestamp'', JStr ''2025-08-14T15:04:51.512Z''), (''level'', JStr ''bogus''),
        (''message'', JStr ''x''), (''env'', JStr ''dev''), (''service'', JUndefined)] ''level''
     \<noteq> Some (JStr (level_name Info))"
  by (simp add: info_logger info_def log_def object_eval LEVEL_PRIORITY_def LEVEL_PRIORITY_lookup_def get_def)

text \<open>
  C3. In an accepted call the additional fields are merged last: every key of the
  caller's record has the caller's value in the entry handed to the sink, whatever the
  key (\<^verbatim>\<open>timestamp\<close>, \<^verbatim>\<open>level\<close>, \<^verbatim>\<open>message\<close>, \<^verbatim>\<open>env\<close> and \<^verbatim>\<open>service\<close> included), and
  every other key has the value of the fixed field of that name, if there is one. The
  caller's record is an object: its keys are distinct.
\<close>

theorem caller_fields_override:
  assumes "Logger_new (Some opts) denv = Inr lg"
    and "coalesce (minLevel opts) ''info'' = level_name T"
    and "priority T \<le> priority S"
    and "distinct (map fst data)"
  shows "\<exists>e r w'. emit S lg message (Some data) now s
                     = (r, lg, \<lparr>world = w', sink_calls = sink_calls s @ [e]\<rparr>)
           \<and> output lg e (world s) = (r, w')
           \<and> (\<forall>k v. (k, v) \<in> set data \<longrightarrow> get e k = Some v)
           \<and> (\<forall>k. k \<notin> fst ` set data \<longrightarrow>
                  get e k = map_of [(''timestamp'', JStr now),
                                    (''level'', JStr (level_name S)),
                                    (''message'', JStr message),
                                    (''env'', JStr (env lg)),
                                    (''service'', (case service lg of
                                                     None \<Rightarrow> JUndefined
                                                   | Some n \<Rightarrow> JStr n))] k)"
proof -
  let ?e = "entry_of lg S message (Some data) now"
  obtain r w' where out: "output lg ?e (world s) = (r, w')"
    by (cases "output lg ?e (world s)")
  have "\<forall>k v. (k, v) \<in> set data \<longrightarrow> get ?e k = Some v"
    using assms(4) by (simp add: get_CopyDataProperties_source coalesce_def)
  moreover have "\<forall>k. k \<notin> fst ` set data \<longrightarrow>
                  get ?e k = map_of [(''timestamp'', JStr now),
                                    (''level'', JStr (level_name S)),
                                    (''message'', JStr message),
                                    (''env'', JStr (env lg)),
                                    (''service'', (case service lg of
                                                     None \<Rightarrow> JUndefined
                                                   | Some n \<Rightarrow> JStr n))] k"
  proof (intro allI impI)
    fix k
    assume "k \<notin> fst ` set data"
    then have "get ?e k = get [(''timestamp'', JStr now),
                                    (''level'', JStr (level_name S)),
                                    (''message'', JStr message),
                                    (''env'', JStr (env lg)),
                                    (''service'', (case service lg of
                                                     None \<Rightarrow> JUndefined
                                                   | Some n \<Rightarrow> JStr n))] k"
      by (simp add: get_CopyDataProperties_other fixed_fields_literal coalesce_def)
    then show "get ?e k = map_of [(''timestamp'', JStr now),
                                    (''level'', JStr (level_name S)),
                                    (''message'', JStr message),
                                    (''env'', JStr (env lg)),
                                    (''service'', (case service lg of
                                                     None \<Rightarrow> JUndefined
                                                   | Some n \<Rightarrow> JStr n))] k"
      by (simp only: get_def)
  qed
  ultimately show ?thesis
    using emit_accepted [OF assms(1-3) out] out by blast
qed

theorem caller_fields_override_witness:
  "priority Warn \<le> priority Critical \<and>
   distinct (map fst [(''level'', JStr ''bogus''), (''timestamp'', JNum (Abs_safe_integer 0)), (''message'', JNull),
                      (''env'', JBool False), (''service'', JStr ''other''), (''key'', JStr ''value'')]) \<and>
   emit Critical \<lparr>minPriority = Priority 2, service = None, env = ''prod'',
          output = (\<lambda>entry w. (Inr (), w\<lparr>stdout := ''called''\<rparr>))\<rparr>
     ''Event occurred''
     (Some [(''level'', JStr ''bogus''), (''timestamp'', JNum (Abs_safe_integer 0)), (''message'', JNull),
            (''env'', JBool False), (''service'', JStr ''other''), (''key'', JStr ''value'')])
     ''2025-08-14T15:04:51.512Z'' \<lparr>world = \<lparr>stdout = ''''\<rparr>, sink_calls = []\<rparr>
   = (Inr (), \<lparr>minPriority = Priority 2, service = None, env = ''prod'',
          output = (\<lambda>entry w. (Inr (), w\<lparr>stdout := ''called''\<rparr>))\<rparr>,
      \<lparr>world = \<lparr>stdout = ''called''\<rparr>,
       sink_calls = [[(''timestamp'', JNum (Abs_safe_integer 0)), (''level'', JStr ''bogus''), (''message'', JNull),
                      (''env'', JBool False), (''service'', JStr ''other''), (''key'', JStr ''value'')]]\<rparr>)"
proof -
  have p: "priority Warn \<le> priority Critical"
    by (simp add: priority_def LEVEL_PRIORITY_def LEVEL_PRIORITY_lookup_def)
  have d: "distinct (map fst [(''level'', JStr ''bogus''), (''timestamp'', JNum (Abs_safe_integer 0)), (''message'', JNull),
                      (''env'', JBool False), (''service'', JStr ''other''), (''key'', JStr ''value'')])"
    by simp
  show ?thesis
    using p caller_fields_override [OF warn_logger _ p d, of "''Event occurred''"
        "''2025-08-14T15:04:51.512Z''" "\<lparr>world = \<lparr>stdout = ''''\<rparr>, sink_calls = []\<rparr>"]
    by (simp add: critical_def log_def object_eval LEVEL_PRIORITY_def LEVEL_PRIORITY_lookup_def)
qed

section \<open>A logger without a service name\<close>

lemma SerializeJSONObject_skips_undefined:
  "\<forall>p \<in> set ps. fst p = k \<longrightarrow> snd p = JUndefined \<Longrightarrow>
     SerializeJSONObject (filter (\<lambda>p. fst p \<noteq> k) ps) = SerializeJSONObject ps"
proof (induction ps)
  case Nil
  then show ?case by simp
next
  case (Cons p ps)
  obtain a b where p: "p = (a, b)" by (cases p)
  from Cons have IH: "SerializeJSONObject (filter (\<lambda>p. fst p \<noteq> k) ps) = SerializeJSONObject ps"
    by simp
  show ?case
  proof (cases "a = k")
    case True
    with Cons.prems p have "b = JUndefined" by simp
    with True p show ?thesis by (simp add: IH split: sum.splits)
  next
    case False
    with p show ?thesis by (simp add: IH split: sum.splits)
  qed
qed

lemma undefined_when_distinct:
  assumes "distinct (map fst ps)" and "map_of ps k = Some v"
  shows "\<forall>p \<in> set ps. fst p = k \<longrightarrow> snd p = v"
  using assms by (induction ps) (auto split: if_splits simp: rev_image_eqI)

text \<open>
  C4, as amended. On a logger constructed without a service name, an accepted call whose
  additional fields have no \<^verbatim>\<open>service\<close> key hands the sink an entry in which the key
  \<^verbatim>\<open>service\<close> is present and bound to \<^verbatim>\<open>undefined\<close> (not \<^verbatim>\<open>null\<close>, not a string). The
  key is absent only from the JSON text of the entry, which is the JSON text of the entry
  without that key.
\<close>

theorem absent_service_is_undefined:
  assumes "Logger_new (Some opts) denv = Inr lg"
    and "serviceName opts = None"
    and "coalesce (minLevel opts) ''info'' = level_name T"
    and "priority T \<le> priority S"
    and "''service'' \<notin> fst ` set (coalesce data [])"
  shows "\<exists>e r w'. emit S lg message data now s
                     = (r, lg, \<lparr>world = w', sink_calls = sink_calls s @ [e]\<rparr>)
           \<and> output lg e (world s) = (r, w')
           \<and> get e ''service'' = Some JUndefined
           \<and> JSON_stringify (JObj e) = JSON_stringify (JObj (filter (\<lambda>p. fst p \<noteq> ''service'') e))"
proof -
  let ?e = "entry_of lg S message data now"
  obtain r w' where out: "output lg ?e (world s) = (r, w')"
    by (cases "output lg ?e (world s)")
  from assms(1,2) have "service lg = None"
    by (simp add: Logger_new_Some)
  then have g: "get ?e ''service'' = Some JUndefined"
    by (simp only: get_CopyDataProperties_other [OF assms(5)] fixed_fields_literal)
       (simp add: get_def)
  have "distinct (map fst ?e)"
    by (simp add: distinct_CopyDataProperties fixed_fields_literal)
  with g have "\<forall>p \<in> set ?e. fst p = ''service'' \<longrightarrow> snd p = JUndefined"
    unfolding get_def by (rule undefined_when_distinct [rotated])
  then have "JSON_stringify (JObj ?e) = JSON_stringify (JObj (filter (\<lambda>p. fst p \<noteq> ''service'') ?e))"
    by (simp add: JSON_stringify_def SerializeJSONObject_skips_undefined)
  with g emit_accepted [OF assms(1,3,4) out] out show ?thesis
    by blast
qed

text \<open>
  The claim as stated fails: the entry at the sink has the key \<^verbatim>\<open>service\<close>.
\<close>

theorem service_key_present_counterexample:
  "Logger_new (Some \<lparr>minLevel = Some ''info'', serviceName = None, env = None,
       output = Some (\<lambda>entry w. (Inr (), w))\<rparr>) (\<lambda>n. Inr None)
   = Inr \<lparr>minPriority = Priority 1, service = None, env = ''dev'',
          output = (\<lambda>entry w. (Inr (), w))\<rparr> \<and>
   info \<lparr>minPriority = Priority 1, service = None, env = ''dev'',
          output = (\<lambda>entry w. (Inr (), w))\<rparr>
     ''Test message'' (Some [(''key'', JStr ''value'')]) ''2025-08-14T15:04:51.512Z''
     \<lparr>world = \<lparr>stdout = ''''\<rparr>, sink_calls = []\<rparr>
   = (Inr (), \<lparr>minPriority = Priority 1, service = None, env = ''dev'',
          output = (\<lambda>entry w. (Inr (), w))\<rparr>,
      \<lparr>world = \<lparr>stdout = ''''\<rparr>,
       sink_calls = [[(''timestamp'', JStr ''2025-08-14T15:04:51.512Z''), (''level'', JStr ''info''),
                      (''message'', JStr ''Test message''), (''env'', JStr ''dev''),
                      (''service'', JUndefined), (''key'', JStr ''value'')]]\<rparr>) \<and>
   ''service'' \<in> fst ` set [(''timestamp'', JStr ''2025-08-14T15:04:51.512Z''), (''level'', JStr ''info''),
                      (''message'', JStr ''Test message''), (''env'', JStr ''dev''),
                      (''service'', JUndefined), (''key'', JStr ''value'')]"
  by (simp add: info_logger info_def log_def object_eval LEVEL_PRIORITY_def LEVEL_PRIORITY_lookup_def)

theorem absent_service_is_undefined_witness:
  "priority Info \<le> priority Warn \<and>
   emit Warn \<lparr>minPriority = Priority 1, service = None, env = ''dev'',
          output = (\<lambda>entry w. (Inr (), w))\<rparr>
     ''hello'' (Some [(''user'', JNum (Abs_safe_integer 42))]) ''2025-08-14T15:04:51.512Z''
     \<lparr>world = \<lparr>stdout = ''''\<rparr>, sink_calls = []\<rparr>
   = (Inr (), \<lparr>minPriority = Priority 1, service = None, env = ''dev'',
          output = (\<lambda>entry w. (Inr (), w))\<rparr>,
      \<lparr>world = \<lparr>stdout = ''''\<rparr>,
       sink_calls = [[(''timestamp'', JStr ''2025-08-14T15:04:51.512Z''), (''level'', JStr ''warn''),
                      (''message'', JStr ''hello''), (''env'', JStr ''dev''),
                      (''service'', JUndefined), (''user'', JNum (Abs_safe_integer 42))]]\<rparr>) \<and>
   get [(''timestamp'', JStr ''2025-08-14T15:04:51.512Z''), (''level'', JStr ''warn''),
        (''message'', JStr ''hello''), (''env'', JStr ''dev''),
        (''service'', JUndefined), (''user'', JNum (Abs_safe_integer 42))] ''service'' = Some JUndefined"
proof -
  have p: "priority Info \<le> priority Warn"
    by (simp add: priority_def LEVEL_PRIORITY_def LEVEL_PRIORITY_lookup_def)
  have d: "''service'' \<notin> fst ` set (coalesce (Some [(''user'', JNum (Abs_safe_integer 42))]) [])"
    by (simp add: coalesce_def)
  show ?thesis
    using p absent_service_is_undefined [OF info_logger _ _ p d, of "''hello''"
        "''2025-08-14T15:04:51.512Z''" "\<lparr>world = \<lparr>stdout = ''''\<rparr>, sink_calls = []\<rparr>"]
    by (simp add: warn_def log_def object_eval LEVEL_PRIORITY_def LEVEL_PRIORITY_lookup_def get_def)
qed

section \<open>A failing sink\<close>

text \<open>
  C5. In an accepted call the sink is invoked once, and when that invocation raises,
  the emission method completes with the very same exception, in the world the sink
  left behind: nothing is caught, and there is no second invocation.
\<close>

theorem sink_error_propagates:
  assumes "Logger_new (Some opts) denv = Inr lg"
    and "coalesce (minLevel opts) ''info'' = level_name T"
    and "priority T \<le> priority S"
  shows "\<exists>e. sink_calls (snd (snd (emit S lg message data now s))) = sink_calls s @ [e]
           \<and> (\<forall>x w'. output lg e (world s) = (Inl x, w') \<longrightarrow>
                 emit S lg message data now s
                   = (Inl x, lg, \<lparr>world = w', sink_calls = sink_calls s @ [e]\<rparr>))"
proof -
  let ?e = "entry_of lg S message data now"
  obtain r w' where out: "output lg ?e (world s) = (r, w')"
    by (cases "output lg ?e (world s)")
  note run = emit_accepted [OF assms out]
  have "sink_calls (snd (snd (emit S lg message data now s))) = sink_calls s @ [?e]"
    by (simp add: run)
  moreover have "\<forall>x w''. output lg ?e (world s) = (Inl x, w'') \<longrightarrow>
                 emit S lg message data now s
                   = (Inl x, lg, \<lparr>world = w'', sink_calls = sink_calls s @ [?e]\<rparr>)"
    using out run by simp
  ultimately show ?thesis by blast
qed

lemma failing_logger:
  "Logger_new (Some \<lparr>minLevel = None, serviceName = Some ''service-name'', env = Some ''prod'',
       output = Some (\<lambda>entry w. (Inl (Thrown (JStr ''sink unavailable'')), w\<lparr>stdout := ''tried''\<rparr>))\<rparr>)
     (\<lambda>n. Inr None)
   = Inr \<lparr>minPriority = Priority 1, service = Some ''service-name'', env = ''prod'',
          output = (\<lambda>entry w. (Inl (Thrown (JStr ''sink unavailable'')), w\<lparr>stdout := ''tried''\<rparr>))\<rparr>"
  by (simp add: Logger_new_def LEVEL_PRIORITY_def LEVEL_PRIORITY_lookup_def coalesce_def)

theorem sink_error_propagates_witness:
  "priority Info \<le> priority Error \<and>
   emit Error \<lparr>minPriority = Priority 1, service = Some ''service-name'', env = ''prod'',
          output = (\<lambda>entry w. (Inl (Thrown (JStr ''sink unavailable'')), w\<lparr>stdout := ''tried''\<rparr>))\<rparr>
     ''Event occurred'' None ''2025-08-14T15:04:51.512Z''
     \<lparr>world = \<lparr>stdout = ''''\<rparr>, sink_calls = []\<rparr>
   = (Inl (Thrown (JStr ''sink unavailable'')),
      \<lparr>minPriority = Priority 1, service = Some ''service-name'', env = ''prod'',
          output = (\<lambda>entry w. (Inl (Thrown (JStr ''sink unavailable'')), w\<lparr>stdout := ''tried''\<rparr>))\<rparr>,
      \<lparr>world = \<lparr>stdout = ''tried''\<rparr>,
       sink_calls = [[(''timestamp'', JStr ''2025-08-14T15:04:51.512Z''), (''level'', JStr ''error''),
                      (''message'', JStr ''Event occurred''), (''env'', JStr ''prod''),
                      (''service'', JStr ''service-name'')]]\<rparr>)"
proof -
  have p: "priority Info \<le> priority Error"
    by (simp add: priority_def LEVEL_PRIORITY_def LEVEL_PRIORITY_lookup_def)
  show ?thesis
    using p sink_error_propagates [OF failing_logger _ p, of "''Event occurred''" None
        "''2025-08-14T15:04:51.512Z''" "\<lparr>world = \<lparr>stdout = ''''\<rparr>, sink_calls = []\<rparr>"]
    by (simp add: error_def log_def object_eval LEVEL_PRIORITY_def LEVEL_PRIORITY_lookup_def)
qed

section \<open>The JSON text of an entry is one line\<close>












section \<open>Construction\<close>





section \<open>The configuration is fixed\<close>



section \<open>An unrecognized minimum severity\<close>

lemma unrecognized_name:
  assumes "\<forall>l. name \<noteq> level_name l"
  shows "LEVEL_PRIORITY name = None"
proof -
  from assms have "name \<noteq> level_name Debug" "name \<noteq> level_name Info" "name \<noteq> level_name Warn"
    "name \<noteq> level_name Error" "name \<noteq> level_name Critical"
    by blast+
  then show ?thesis
    by (simp add: LEVEL_PRIORITY_def)
qed

lemma unrecognized_lookup:
  assumes "\<forall>l. name \<noteq> level_name l"
  shows "LEVEL_PRIORITY_lookup name
           = (if name \<in> set Object_prototype_keys then Inherited else Undefined)"
  by (simp add: LEVEL_PRIORITY_lookup_def unrecognized_name [OF assms])

lemma not_a_number_passes:
  assumes "minPriority this = Inherited \<or> minPriority this = Undefined"
    and "output this (entry_of this S message data now) (world s) = (r, w')"
  shows "emit S this message data now s
           = (r, this, \<lparr>world = w', sink_calls = sink_calls s @ [entry_of this S message data now]\<rparr>)"
proof -
  from assms(1) have "\<not> js_less (LEVEL_PRIORITY_lookup (level_name S)) (minPriority this)"
    by (cases "LEVEL_PRIORITY_lookup (level_name S)") auto
  with assms(2) show ?thesis
    by (simp add: emit_log log_accepted)
qed

text \<open>
  C9, as amended. No check of the minimum severity happens at run time. With a name that
  is none of the five level names, construction raises or succeeds exactly as it does
  with a level name; when it succeeds it gives the same logger except for the threshold,
  which is what the member access on the table gives for that name: \<^verbatim>\<open>undefined\<close>, or
  for a name found on \<^verbatim>\<open>Object.prototype\<close> (\<^verbatim>\<open>toString\<close>, \<^verbatim>\<open>constructor\<close>, ...) the member
  inherited from there, never a number and never a default. On that logger no call is
  filtered: every call of every severity invokes the sink once, on the entry it builds,
  and completes as the sink does.
\<close>

theorem unrecognized_minLevel_is_accepted:
  assumes "minLevel opts = Some name"
    and "\<forall>l. name \<noteq> level_name l"
  shows "case Logger_new (Some (opts\<lparr>minLevel := Some (level_name T)\<rparr>)) denv of
           Inl x \<Rightarrow> Logger_new (Some opts) denv = Inl x
         | Inr lg \<Rightarrow>
             (\<exists>lg'. Logger_new (Some opts) denv = Inr lg'
                \<and> lg' = lg\<lparr>minPriority := LEVEL_PRIORITY_lookup name\<rparr>
                \<and> minPriority lg'
                    = (if name \<in> set Object_prototype_keys then Inherited else Undefined)
                \<and> (\<forall>S message data now s. \<exists>e r w'.
                      emit S lg' message data now s
                        = (r, lg', \<lparr>world = w', sink_calls = sink_calls s @ [e]\<rparr>)
                      \<and> output lg' e (world s) = (r, w')
                      \<and> e = entry_of lg' S message data now))"
proof (cases "Logger_new (Some (opts\<lparr>minLevel := Some (level_name T)\<rparr>)) denv")
  case (Inl x)
  then have "Logger_new (Some opts) denv = Inl x"
    by (auto simp: Logger_new_def coalesce_def split: sum.splits option.splits)
  with Inl show ?thesis by simp
next
  case (Inr lg)
  let ?lg' = "lg\<lparr>minPriority := LEVEL_PRIORITY_lookup name\<rparr>"
  have new: "Logger_new (Some opts) denv = Inr ?lg'"
    using assms(1) Inr
    by (auto simp: Logger_new_def coalesce_def split: sum.splits option.splits)
  have threshold: "minPriority ?lg'
                    = (if name \<in> set Object_prototype_keys then Inherited else Undefined)"
    by (simp add: unrecognized_lookup [OF assms(2)])
  have "\<exists>e r w'.
          emit S ?lg' message data now s
            = (r, ?lg', \<lparr>world = w', sink_calls = sink_calls s @ [e]\<rparr>)
          \<and> output ?lg' e (world s) = (r, w')
          \<and> e = entry_of ?lg' S message data now"
    for S message data now s
  proof -
    obtain r w' where out: "output ?lg' (entry_of ?lg' S message data now) (world s) = (r, w')"
      by (cases "output ?lg' (entry_of ?lg' S message data now) (world s)")
    from threshold have "minPriority ?lg' = Inherited \<or> minPriority ?lg' = Undefined"
      by (simp split: if_splits)
    from not_a_number_passes [OF this out] out show ?thesis
      by blast
  qed
  with new threshold have main: "\<exists>lg'. Logger_new (Some opts) denv = Inr lg'
                \<and> lg' = ?lg'
                \<and> minPriority lg'
                    = (if name \<in> set Object_prototype_keys then Inherited else Undefined)
                \<and> (\<forall>S message data now s. \<exists>e r w'.
                      emit S lg' message data now s
                        = (r, lg', \<lparr>world = w', sink_calls = sink_calls s @ [e]\<rparr>)
                      \<and> output lg' e (world s) = (r, w')
                      \<and> e = entry_of lg' S message data now)"
    by blast
  show ?thesis
    by (simp only: Inr sum.case main)
qed

text \<open>
  The claim as stated fails: with the minimum severity \<^verbatim>\<open>verbose\<close> the constructor returns
  a logger, and a \<^verbatim>\<open>debug\<close> call on it reaches the sink.
\<close>

theorem unrecognized_minLevel_counterexample:
  "LEVEL_PRIORITY ''verbose'' = None \<and>
   Logger_new (Some \<lparr>minLevel = Some ''verbose'', serviceName = None, env = Some ''prod'',
       output = Some (\<lambda>entry w. (Inr (), w))\<rparr>) (\<lambda>n. Inr None)
   = Inr \<lparr>minPriority = Undefined, service = None, env = ''prod'',
          output = (\<lambda>entry w. (Inr (), w))\<rparr> \<and>
   debug \<lparr>minPriority = Undefined, service = None, env = ''prod'',
          output = (\<lambda>entry w. (Inr (), w))\<rparr>
     ''Should not log'' None ''2025-08-14T15:04:51.512Z''
     \<lparr>world = \<lparr>stdout = ''''\<rparr>, sink_calls = []\<rparr>
   = (Inr (), \<lparr>minPriority = Undefined, service = None, env = ''prod'',
          output = (\<lambda>entry w. (Inr (), w))\<rparr>,
      \<lparr>world = \<lparr>stdout = ''''\<rparr>,
       sink_calls = [[(''timestamp'', JStr ''2025-08-14T15:04:51.512Z''), (''level'', JStr ''debug''),
                      (''message'', JStr ''Should not log''), (''env'', JStr ''prod''),
                      (''service'', JUndefined)]]\<rparr>)"
  by (simp add: Logger_new_def debug_def log_def object_eval LEVEL_PRIORITY_def
      LEVEL_PRIORITY_lookup_def Object_prototype_keys_def)

lemma not_level_names:
  "\<forall>l. ''verbose'' \<noteq> level_name l" "\<forall>l. ''toString'' \<noteq> level_name l"
proof -
  show "\<forall>l. ''verbose'' \<noteq> level_name l"
  proof
    fix l
    show "''verbose'' \<noteq> level_name l"
      by (cases l) simp_all
  qed
  show "\<forall>l. ''toString'' \<noteq> level_name l"
  proof
    fix l
    show "''toString'' \<noteq> level_name l"
      by (cases l) simp_all
  qed
qed

theorem unrecognized_minLevel_is_accepted_witness:
  "Logger_new (Some \<lparr>minLevel = Some ''verbose'', serviceName = None, env = Some ''prod'',
       output = Some (\<lambda>entry (w :: console). (Inr (), w))\<rparr>) (\<lambda>n. Inr None)
   = Inr \<lparr>minPriority = Undefined, service = None, env = ''prod'',
          output = (\<lambda>entry w. (Inr (), w))\<rparr> \<and>
   Logger_new (Some \<lparr>minLevel = Some ''toString'', serviceName = None, env = Some ''prod'',
       output = Some (\<lambda>entry (w :: console). (Inr (), w))\<rparr>) (\<lambda>n. Inr None)
   = Inr \<lparr>minPriority = Inherited, service = None, env = ''prod'',
          output = (\<lambda>entry w. (Inr (), w))\<rparr> \<and>
   emit Debug \<lparr>minPriority = Inherited, service = None, env = ''prod'',
          output = (\<lambda>entry w. (Inr (), w))\<rparr>
     ''Event occurred'' (Some [(''key'', JStr ''value'')]) ''2025-08-14T15:04:51.512Z''
     \<lparr>world = \<lparr>stdout = ''''\<rparr>, sink_calls = []\<rparr>
   = (Inr (), \<lparr>minPriority = Inherited, service = None, env = ''prod'',
          output = (\<lambda>entry w. (Inr (), w))\<rparr>,
      \<lparr>world = \<lparr>stdout = ''''\<rparr>,
       sink_calls = [[(''timestamp'', JStr ''2025-08-14T15:04:51.512Z''), (''level'', JStr ''debug''),
                      (''message'', JStr ''Event occurred''), (''env'', JStr ''prod''),
                      (''service'', JUndefined), (''key'', JStr ''value'')]]\<rparr>)"
proof -
  have verbose: "Logger_new (Some \<lparr>minLevel = Some ''verbose'', serviceName = None, env = Some ''prod'',
       output = Some (\<lambda>entry (w :: console). (Inr (), w))\<rparr>) (\<lambda>n. Inr None)
   = Inr \<lparr>minPriority = Undefined, service = None, env = ''prod'',
          output = (\<lambda>entry w. (Inr (), w))\<rparr>"
    using unrecognized_minLevel_is_accepted
        [where opts = "\<lparr>minLevel = Some ''verbose'', serviceName = None, env = Some ''prod'',
             output = Some (\<lambda>entry (w :: console). (Inr () :: js_exception + unit, w))\<rparr>"
           and T = Info and denv = "\<lambda>n. Inr None", OF _ not_level_names(1)]
    by (simp add: Logger_new_def coalesce_def LEVEL_PRIORITY_def LEVEL_PRIORITY_lookup_def
        Object_prototype_keys_def)
  have inherited: "Logger_new (Some \<lparr>minLevel = Some ''toString'', serviceName = None, env = Some ''prod'',
       output = Some (\<lambda>entry (w :: console). (Inr (), w))\<rparr>) (\<lambda>n. Inr None)
   = Inr \<lparr>minPriority = Inherited, service = None, env = ''prod'',
          output = (\<lambda>entry w. (Inr (), w))\<rparr>"
    using unrecognized_minLevel_is_accepted
        [where opts = "\<lparr>minLevel = Some ''toString'', serviceName = None, env = Some ''prod'',
             output = Some (\<lambda>entry (w :: console). (Inr () :: js_exception + unit, w))\<rparr>"
           and T = Info and denv = "\<lambda>n. Inr None", OF _ not_level_names(2)]
    by (simp add: Logger_new_def coalesce_def LEVEL_PRIORITY_def LEVEL_PRIORITY_lookup_def
        Object_prototype_keys_def)
  have delivered: "emit Debug \<lparr>minPriority = Inherited, service = None, env = ''prod'',
          output = (\<lambda>entry (w :: console). (Inr (), w))\<rparr>
     ''Event occurred'' (Some [(''key'', JStr ''value'')]) ''2025-08-14T15:04:51.512Z''
     \<lparr>world = \<lparr>stdout = ''''\<rparr>, sink_calls = []\<rparr>
   = (Inr (), \<lparr>minPriority = Inherited, service = None, env = ''prod'',
          output = (\<lambda>entry w. (Inr (), w))\<rparr>,
      \<lparr>world = \<lparr>stdout = ''''\<rparr>,
       sink_calls = [[(''timestamp'', JStr ''2025-08-14T15:04:51.512Z''), (''level'', JStr ''debug''),
                      (''message'', JStr ''Event occurred''), (''env'', JStr ''prod''),
                      (''service'', JUndefined), (''key'', JStr ''value'')]]\<rparr>)"
    by (simp add: debug_def log_def object_eval LEVEL_PRIORITY_def LEVEL_PRIORITY_lookup_def)
  from verbose inherited delivered show ?thesis
    by simp
qed

section \<open>The optional data argument\<close>

text \<open>
  C10. For each of the five methods, a call without the additional-fields argument
  gives the same completion, the same logger and the same state (so the same filter
  decision and the same entry at the sink) as the call with the empty record.
\<close>

theorem omitted_data_is_empty_record:
  "debug this message None now s = debug this message (Some []) now s
   \<and> info this message None now s = info this message (Some []) now s
   \<and> warn this message None now s = warn this message (Some []) now s
   \<and> error this message None now s = error this message (Some []) now s
   \<and> critical this message None now s = critical this message (Some []) now s"
  by (simp add: debug_def info_def warn_def error_def critical_def log_def coalesce_def)

end
